theory Spec2Isabelle
  imports Complex_Main
begin

section \<open>Values\<close>

text \<open>
  The values the component handles when it runs: what \<^verbatim>\<open>JSON.parse\<close> returns, what a
  promise rejects with, and the objects the component builds from them. An object is the
  list of its own properties, in their order, a property set to \<^verbatim>\<open>undefined\<close> being kept
  with that value; a hole of an array reads as \<^verbatim>\<open>undefined\<close>. A number is a real (there
  is no NaN and no infinite number in what \<^verbatim>\<open>JSON.parse\<close> returns), a string the list of
  its characters.
\<close>

datatype val =
  Undefined
  | Null
  | Bool bool
  | Num real
  | Str string
  | Arr "val list"
  | Object "(string \<times> val) list"

text \<open>Truthiness: \<^verbatim>\<open>!v\<close> and \<^verbatim>\<open>!!v\<close>.\<close>

fun falsy :: "val \<Rightarrow> bool" where
  "falsy Undefined = True"
| "falsy Null = True"
| "falsy (Bool b) = (\<not> b)"
| "falsy (Num n) = (n = 0)"
| "falsy (Str s) = (s = [])"
| "falsy (Arr xs) = False"
| "falsy (Object ps) = False"

fun truthy :: "val \<Rightarrow> bool" where
  "truthy v = (\<not> falsy v)"

text \<open>Reading a property of \<^verbatim>\<open>null\<close> or \<^verbatim>\<open>undefined\<close> throws a TypeError.\<close>

fun nullish :: "val \<Rightarrow> bool" where
  "nullish Undefined = True"
| "nullish Null = True"
| "nullish v = False"

text \<open>
  \<^verbatim>\<open>v.k\<close> for a value that is not \<^verbatim>\<open>null\<close> or \<^verbatim>\<open>undefined\<close>, and for the names the
  component reads as data: \<^verbatim>\<open>isGenerating\<close>, \<^verbatim>\<open>imagePrompt\<close>, \<^verbatim>\<open>imageUrl\<close>, \<^verbatim>\<open>error\<close>,
  \<^verbatim>\<open>message\<close> and the other properties of a shot. An object has the property or not; a
  boolean, a number, a string and an array have none of these names.
\<close>

fun property :: "string \<Rightarrow> val \<Rightarrow> val" where
  "property k (Object ps) = (case map_of ps k of None \<Rightarrow> Undefined | Some v \<Rightarrow> v)"
| "property k v = Undefined"

text \<open>
  \<^verbatim>\<open>{...o, k: v}\<close>: the property keeps its place when the object has it, and comes last
  otherwise.
\<close>

fun set_prop :: "string \<Rightarrow> val \<Rightarrow> (string \<times> val) list \<Rightarrow> (string \<times> val) list" where
  "set_prop k v [] = [(k, v)]"
| "set_prop k v (p # ps) = (if fst p = k then (k, v) # ps else p # set_prop k v ps)"

text \<open>The decimal name of an index, as the key of an element of an array or a string.\<close>

definition digit :: "nat \<Rightarrow> char" where
  "digit d = char_of (48 + d)"

function show_nat :: "nat \<Rightarrow> string" where
  "show_nat n = (if n < 10 then [digit n] else show_nat (n div 10) @ [digit (n mod 10)])"
  by pat_completeness auto
termination
  by (relation "measure id") auto

declare show_nat.simps [simp del]

definition indexed :: "val list \<Rightarrow> (string \<times> val) list" where
  "indexed xs = zip (map show_nat [0..<length xs]) xs"

definition characters :: "string \<Rightarrow> val list" where
  "characters s = map (\<lambda>c. Str [c]) s"

text \<open>
  \<^verbatim>\<open>{...v}\<close>: the own properties of an object, the elements of an array or the
  characters of a string under their indices, and nothing for any other value.
\<close>

fun spread :: "val \<Rightarrow> (string \<times> val) list" where
  "spread (Object ps) = ps"
| "spread (Arr xs) = indexed xs"
| "spread (Str s) = indexed (characters s)"
| "spread v = []"

text \<open>
  \<^verbatim>\<open>[...v]\<close>: the elements of an array, the characters of a string; any other value is
  not iterable and the spread throws a TypeError (\<open>None\<close>).
\<close>

fun iterate :: "val \<Rightarrow> val list option" where
  "iterate (Arr xs) = Some xs"
| "iterate (Str s) = Some (characters s)"
| "iterate v = None"

text \<open>
  Reading and writing an array by index. A read past the end is \<^verbatim>\<open>undefined\<close>; a write
  past the end extends the array, the skipped indices reading as \<^verbatim>\<open>undefined\<close>.
\<close>

definition js_get :: "val list \<Rightarrow> nat \<Rightarrow> val" where
  "js_get xs i = (if i < length xs then xs ! i else Undefined)"

definition js_set :: "val list \<Rightarrow> nat \<Rightarrow> val \<Rightarrow> val list" where
  "js_set xs i v =
     (if i < length xs then xs[i := v]
      else xs @ replicate (i - length xs) Undefined @ [v])"

section \<open>Data model (src/types.ts)\<close>

text \<open>
  \<^verbatim>\<open>interface Shot\<close> and \<^verbatim>\<open>interface GeneratedShot extends Shot\<close>, and the object that
  has this shape. The interfaces are erased when the program runs: nothing checks that a
  value has the shape, so the component's state holds values (\<^typ>\<open>val\<close>).
\<close>

record Shot =
  shotNumber :: int
  sceneDescription :: string
  cameraAngle :: string
  cameraMovement :: string
  lens :: string
  lighting :: string
  imagePrompt :: string

record GeneratedShot = Shot +
  imageUrl :: "string option"
  isGenerating :: "bool option"
  error :: "string option"

definition optional :: "string \<Rightarrow> ('a \<Rightarrow> val) \<Rightarrow> 'a option \<Rightarrow> (string \<times> val) list" where
  "optional k f x = (case x of None \<Rightarrow> [] | Some y \<Rightarrow> [(k, f y)])"

definition shot_value :: "GeneratedShot \<Rightarrow> val" where
  "shot_value g =
     Object
       ([(''shotNumber'', Num (of_int (shotNumber g))),
         (''sceneDescription'', Str (sceneDescription g)),
         (''cameraAngle'', Str (cameraAngle g)),
         (''cameraMovement'', Str (cameraMovement g)),
         (''lens'', Str (lens g)),
         (''lighting'', Str (lighting g)),
         (''imagePrompt'', Str (imagePrompt g))]
        @ optional ''imageUrl'' Str (imageUrl g)
        @ optional ''isGenerating'' Bool (isGenerating g)
        @ optional ''error'' Str (error g))"

section \<open>Strings\<close>

text \<open>
  \<^verbatim>\<open>String.prototype.trim\<close> removes white space and line terminators at both ends. Of
  the characters it removes, those a \<^typ>\<open>char\<close> can hold are the code points 9 to 13, 32
  and 160.
\<close>

definition js_whitespace :: "char \<Rightarrow> bool" where
  "js_whitespace c =
     (let n = (of_char c :: nat)
      in n = 9 \<or> n = 10 \<or> n = 11 \<or> n = 12 \<or> n = 13 \<or> n = 32 \<or> n = 160)"

definition trim :: "string \<Rightarrow> string" where
  "trim s = rev (dropWhile js_whitespace (rev (dropWhile js_whitespace s)))"

fun starts_with :: "string \<Rightarrow> string \<Rightarrow> bool" where
  "starts_with s [] = True"
| "starts_with [] (c # cs) = False"
| "starts_with (x # xs) (c # cs) = (x = c \<and> starts_with xs cs)"

text \<open>\<^verbatim>\<open>String.prototype.includes\<close>: the second string occurs somewhere in the first.\<close>

fun js_includes :: "string \<Rightarrow> string \<Rightarrow> bool" where
  "js_includes [] t = (t = [])"
| "js_includes (x # xs) t = (starts_with (x # xs) t \<or> js_includes xs t)"

section \<open>The collaborators\<close>

text \<open>
  A promise settles: it resolves with a value or rejects with a thrown value, which can be
  any value. An async function of the component completes (\<open>Done\<close>) or rejects (\<open>Threw\<close>).
  An \<^verbatim>\<open>Error\<close> (a \<^verbatim>\<open>TypeError\<close>, a \<^verbatim>\<open>SyntaxError\<close>) is an object with a \<^verbatim>\<open>message\<close>.
\<close>

datatype 'a settled = Resolved 'a | Rejected val

datatype completion = Done | Threw val

definition error_object :: "string \<Rightarrow> val" where
  "error_object m = Object [(''message'', Str m)]"

text \<open>
  The TypeError of a failed read or call. Its message is the engine's; the component never
  reads it.
\<close>

definition type_error :: val where
  "type_error = error_object ''TypeError''"

text \<open>\<^verbatim>\<open>err.message\<close>: the read throws (\<open>None\<close>) when \<^verbatim>\<open>err\<close> is \<^verbatim>\<open>null\<close> or \<^verbatim>\<open>undefined\<close>.\<close>

definition message_of :: "val \<Rightarrow> val option" where
  "message_of err = (if nullish err then None else Some (property ''message'' err))"

text \<open>\<^verbatim>\<open>v || fallback\<close>\<close>

definition or_else :: "val \<Rightarrow> string \<Rightarrow> val" where
  "or_else v fallback = (if truthy v then v else Str fallback)"

text \<open>
  \<^verbatim>\<open>m.includes("Requested entity was not found")\<close> for a truthy \<^verbatim>\<open>m\<close>: a string has the
  method of strings, an array the method of arrays (one of its elements is that string);
  any other value has no such method and the call throws a TypeError (\<open>None\<close>).
\<close>

definition phrase :: string where
  "phrase = ''Requested entity was not found''"

fun includes_phrase :: "val \<Rightarrow> bool option" where
  "includes_phrase (Str s) = Some (js_includes s phrase)"
| "includes_phrase (Arr xs) = Some (List.member xs (Str phrase))"
| "includes_phrase v = None"

text \<open>
  The response of the image endpoint, as far as \<^verbatim>\<open>generateImageForShot\<close> reads it:
  \<^verbatim>\<open>response.candidates?.[0]?.content?.parts\<close>, and of a part its \<^verbatim>\<open>inlineData\<close> with
  the \<^verbatim>\<open>data\<close> of that.
\<close>

record Blob =
  data :: string

record Part =
  part_text :: "string option"
  inlineData :: "Blob option"

record Content =
  parts :: "Part list option"

record Candidate =
  content :: "Content option"

record GenerateContentResponse =
  candidates :: "Candidate list option"

text \<open>
  What one call of \<^verbatim>\<open>generateImageForShot\<close> meets outside the component: how the image
  request settles, and \<^verbatim>\<open>window.aistudio\<close>, which is absent (\<open>None\<close>) or present with
  the way its \<^verbatim>\<open>openSelectKey()\<close> settles.
\<close>

record render_env =
  request :: "GenerateContentResponse settled"
  aistudio :: "unit settled option"

text \<open>
  The three object literals that \<^verbatim>\<open>generateImageForShot\<close> writes over an element of the
  list, each a spread of the element with some properties replaced.
\<close>

datatype literal = MarkGenerating | SetImage string | SetFailed val

fun written :: "literal \<Rightarrow> val \<Rightarrow> val" where
  "written MarkGenerating e =
     Object (set_prop ''error'' Undefined (set_prop ''isGenerating'' (Bool True) (spread e)))"
| "written (SetImage url) e =
     Object (set_prop ''isGenerating'' (Bool False) (set_prop ''imageUrl'' (Str url) (spread e)))"
| "written (SetFailed msg) e =
     Object (set_prop ''error'' msg (set_prop ''isGenerating'' (Bool False) (spread e)))"

text \<open>
  The effects, in the order they happen: the analysis request (with the script), a call of
  \<^verbatim>\<open>setShots\<close> with an updater that writes over the element at an index, the image
  request made for an index (with the prompt it sends), the settling of that request, and
  a call of \<^verbatim>\<open>window.aistudio.openSelectKey\<close>.
\<close>

datatype event =
  AnalysisRequest string
  | SetShots nat literal
  | ImageRequest nat val
  | ImageSettled nat
  | OpenSelectKey

section \<open>The component's state (CinematicTool)\<close>

text \<open>
  The state variables \<^verbatim>\<open>isAnalyzing\<close>, \<^verbatim>\<open>shots\<close> and \<^verbatim>\<open>error\<close> (here \<open>banner\<close>, the
  name \<open>error\<close> being the shot's property; \<^verbatim>\<open>null\<close> at first), with the trace of effects.
  \<open>broken\<close> records that an updater given to \<^verbatim>\<open>setShots\<close> threw. The script is an
  argument of \<open>analyzeScript\<close>.
\<close>

record tool =
  isAnalyzing :: bool
  shots :: val
  banner :: val
  trace :: "event list"
  broken :: bool

definition initial :: tool where
  "initial = \<lparr>isAnalyzing = False, shots = Arr [], banner = Null, trace = [], broken = False\<rparr>"

text \<open>The elements of the state's list, and \<^verbatim>\<open>shots[i]\<close> of the state.\<close>

definition items :: "val \<Rightarrow> val list" where
  "items v = (case iterate v of None \<Rightarrow> [] | Some xs \<Rightarrow> xs)"

definition shot_at :: "tool \<Rightarrow> nat \<Rightarrow> val" where
  "shot_at w i = js_get (items (shots w)) i"

section \<open>analyzeScript\<close>

text \<open>
  Up to the request (lines 115 to 122 of the component): an empty or blank script returns
  at once (\<open>None\<close>); otherwise the flag is set, the banner cleared, the list emptied and
  the request issued.
\<close>

definition analyze_begin :: "string \<Rightarrow> tool \<Rightarrow> tool option" where
  "analyze_begin script w =
     (if trim script = [] then None
      else Some (w\<lparr>isAnalyzing := True, banner := Null, shots := Arr [],
                   trace := trace w @ [AnalysisRequest script]\<rparr>))"

text \<open>
  The body of the \<^verbatim>\<open>try\<close> after the request has settled (lines 183 to 189): the value
  it stores, or what it throws. \<open>JSON_parse\<close> is \<^verbatim>\<open>JSON.parse\<close>: it returns a value, or
  throws a \<^verbatim>\<open>SyntaxError\<close> with a message. The type assertion \<^verbatim>\<open>as GeneratedShot[]\<close>
  checks nothing.
\<close>

definition analyze_try ::
  "(string \<Rightarrow> string + val) \<Rightarrow> string option settled \<Rightarrow> val + val"
where
  "analyze_try JSON_parse response =
     (case response of
        Rejected err \<Rightarrow> Inl err
      | Resolved txt \<Rightarrow>
          (case map_option trim txt of
             None \<Rightarrow> Inl (error_object ''Failed to parse script analysis.'')
           | Some jsonStr \<Rightarrow>
               if jsonStr = [] then Inl (error_object ''Failed to parse script analysis.'')
               else (case JSON_parse jsonStr of
                       Inl m \<Rightarrow> Inl (error_object m)
                     | Inr parsedShots \<Rightarrow> Inr parsedShots)))"

text \<open>
  After the request has settled (lines 183 to 195): \<^verbatim>\<open>try\<close>, \<^verbatim>\<open>catch\<close>, \<^verbatim>\<open>finally\<close>. When
  reading \<^verbatim>\<open>err.message\<close> throws, the \<^verbatim>\<open>catch\<close> block ends there and the function
  rejects, after the \<^verbatim>\<open>finally\<close> block.
\<close>

definition analyze_settle ::
  "(string \<Rightarrow> string + val) \<Rightarrow> string option settled \<Rightarrow> tool \<Rightarrow> completion \<times> tool"
where
  "analyze_settle JSON_parse response w =
     (case analyze_try JSON_parse response of
        Inr parsedShots \<Rightarrow> (Done, w\<lparr>shots := parsedShots, isAnalyzing := False\<rparr>)
      | Inl err \<Rightarrow>
          (case message_of err of
             None \<Rightarrow> (Threw type_error, w\<lparr>isAnalyzing := False\<rparr>)
           | Some m \<Rightarrow>
               (Done, w\<lparr>banner := or_else m ''An error occurred during analysis.'',
                         isAnalyzing := False\<rparr>)))"

definition analyzeScript ::
  "(string \<Rightarrow> string + val) \<Rightarrow> string option settled \<Rightarrow> string \<Rightarrow> tool \<Rightarrow> completion \<times> tool"
where
  "analyzeScript JSON_parse response script w =
     (case analyze_begin script w of
        None \<Rightarrow> (Done, w)
      | Some w1 \<Rightarrow> analyze_settle JSON_parse response w1)"

section \<open>generateImageForShot\<close>

text \<open>
  A handler reads \<^verbatim>\<open>shots\<close> as the constant of the render that created it (\<open>captured\<close>):
  no call of \<^verbatim>\<open>setShots\<close> changes that array. It is an array, since a handler can be
  called only through the elements its render returned, and that render maps over
  \<^verbatim>\<open>shots\<close> (line 389). A handler writes through \<^verbatim>\<open>setShots((prev) => ...)\<close>, whose
  \<^verbatim>\<open>prev\<close> is the state's value at the write. A handler called from the page belongs to
  the latest render, so there \<open>captured\<close> is the state's list; the loop of
  \<open>generateAllImages\<close> keeps the array it started with, and calls the renderer that reads
  the same array.
\<close>

definition update_shot :: "nat \<Rightarrow> literal \<Rightarrow> tool \<Rightarrow> tool" where
  "update_shot shotIndex k w =
     (case iterate (shots w) of
        None \<Rightarrow> w\<lparr>trace := trace w @ [SetShots shotIndex k], broken := True\<rparr>
      | Some prev \<Rightarrow>
          w\<lparr>shots := Arr (js_set prev shotIndex (written k (js_get prev shotIndex))),
            trace := trace w @ [SetShots shotIndex k]\<rparr>)"

text \<open>
  Up to the request (lines 199 to 225): the guard returns (\<open>None\<close>), or the shot is marked
  and the request is issued with the captured shot's prompt.
\<close>

definition render_begin :: "val list \<Rightarrow> nat \<Rightarrow> tool \<Rightarrow> tool option" where
  "render_begin captured shotIndex w =
     (let shot = js_get captured shotIndex
      in if falsy shot \<or> truthy (property ''isGenerating'' shot) then None
         else Some (let w1 = update_shot shotIndex MarkGenerating w
                    in w1\<lparr>trace := trace w1
                           @ [ImageRequest shotIndex (property ''imagePrompt'' shot)]\<rparr>))"

text \<open>\<^verbatim>\<open>response.candidates?.[0]?.content?.parts || []\<close>\<close>

definition response_parts :: "GenerateContentResponse \<Rightarrow> Part list" where
  "response_parts response =
     (case candidates response of
        None \<Rightarrow> []
      | Some [] \<Rightarrow> []
      | Some (c # _) \<Rightarrow>
          (case content c of
             None \<Rightarrow> []
           | Some ct \<Rightarrow> (case parts ct of None \<Rightarrow> [] | Some ps \<Rightarrow> ps)))"

text \<open>The loop of lines 227 to 233: the URL of the first part with inline data, else \<^verbatim>\<open>""\<close>.\<close>

fun first_inline :: "Part list \<Rightarrow> string" where
  "first_inline [] = []"
| "first_inline (p # ps) =
     (case inlineData p of
        Some b \<Rightarrow> ''data:image/png;base64,'' @ data b
      | None \<Rightarrow> first_inline ps)"

text \<open>
  The \<^verbatim>\<open>catch\<close> block (lines 248 to 269). Reading \<^verbatim>\<open>err.message\<close> and calling its
  \<^verbatim>\<open>includes\<close> can throw, and the call of \<^verbatim>\<open>openSelectKey\<close> is awaited inside the
  block: when one of them throws or rejects, the block ends there, before the
  \<^verbatim>\<open>setShots\<close> of line 260, and the function rejects.
\<close>

definition auth_hint :: "val \<Rightarrow> bool option" where
  "auth_hint m = (if truthy m then includes_phrase m else Some False)"

definition reselect :: "tool \<Rightarrow> tool" where
  "reselect w = w\<lparr>trace := trace w @ [OpenSelectKey]\<rparr>"

definition set_failed :: "nat \<Rightarrow> val \<Rightarrow> tool \<Rightarrow> tool" where
  "set_failed shotIndex m w =
     update_shot shotIndex (SetFailed (or_else m ''Failed to generate image.'')) w"

definition render_catch :: "render_env \<Rightarrow> nat \<Rightarrow> val \<Rightarrow> tool \<Rightarrow> completion \<times> tool" where
  "render_catch env shotIndex err w =
     (case message_of err of
        None \<Rightarrow> (Threw type_error, w)
      | Some m \<Rightarrow>
          (case auth_hint m of
             None \<Rightarrow> (Threw type_error, w)
           | Some hint \<Rightarrow>
               if hint then
                 (case aistudio env of
                    None \<Rightarrow> (Done, set_failed shotIndex m w)
                  | Some (Resolved _) \<Rightarrow> (Done, set_failed shotIndex m (reselect w))
                  | Some (Rejected e) \<Rightarrow> (Threw e, reselect w))
               else (Done, set_failed shotIndex m w)))"

text \<open>
  The body of the \<^verbatim>\<open>try\<close> after the request has settled (lines 227 to 247): the URL it
  found, or what it throws.
\<close>

definition render_try :: "render_env \<Rightarrow> val + string" where
  "render_try env =
     (case request env of
        Rejected err \<Rightarrow> Inl err
      | Resolved response \<Rightarrow>
          (let url = first_inline (response_parts response)
           in if url \<noteq> [] then Inr url else Inl (error_object ''No image generated.'')))"

definition render_resume :: "nat \<Rightarrow> tool \<Rightarrow> tool" where
  "render_resume shotIndex w = w\<lparr>trace := trace w @ [ImageSettled shotIndex]\<rparr>"

text \<open>After the request has settled (lines 227 to 269).\<close>

definition render_settle :: "render_env \<Rightarrow> nat \<Rightarrow> tool \<Rightarrow> completion \<times> tool" where
  "render_settle env shotIndex w =
     (case render_try env of
        Inr url \<Rightarrow> (Done, update_shot shotIndex (SetImage url) (render_resume shotIndex w))
      | Inl err \<Rightarrow> render_catch env shotIndex err (render_resume shotIndex w))"

text \<open>The whole call, when nothing else runs while its request is awaited.\<close>

definition generateImageForShot ::
  "render_env \<Rightarrow> val list \<Rightarrow> nat \<Rightarrow> tool \<Rightarrow> completion \<times> tool"
where
  "generateImageForShot env captured shotIndex w =
     (case render_begin captured shotIndex w of
        None \<Rightarrow> (Done, w)
      | Some w1 \<Rightarrow> render_settle env shotIndex w1)"

section \<open>generateAllImages\<close>

text \<open>
  The loop of lines 273 to 277, from index \<open>i\<close> on, when nothing else runs while it
  awaits. The environment gives, for each index, what the render of that index meets.
  Reading \<^verbatim>\<open>shots[i].imageUrl\<close> of an element that is \<^verbatim>\<open>undefined\<close> or \<^verbatim>\<open>null\<close> throws a
  TypeError; a render that rejects ends the loop, the \<^verbatim>\<open>await\<close> throwing in turn.
\<close>

definition pending :: "val \<Rightarrow> bool" where
  "pending s = (falsy (property ''imageUrl'' s) \<and> falsy (property ''isGenerating'' s))"

function sweep_from ::
  "(nat \<Rightarrow> render_env) \<Rightarrow> val list \<Rightarrow> nat \<Rightarrow> tool \<Rightarrow> completion \<times> tool"
where
  "sweep_from env captured i w =
     (if i < length captured then
        (if nullish (captured ! i) then (Threw type_error, w)
         else if pending (captured ! i) then
           (case generateImageForShot (env i) captured i w of
              (Threw e, w') \<Rightarrow> (Threw e, w')
            | (Done, w') \<Rightarrow> sweep_from env captured (Suc i) w')
         else sweep_from env captured (Suc i) w)
      else (Done, w))"
  by pat_completeness auto
termination
  by (relation "measure (\<lambda>(env, captured, i, w). length captured - i)") auto

declare sweep_from.simps [simp del]

definition generateAllImages ::
  "(nat \<Rightarrow> render_env) \<Rightarrow> val list \<Rightarrow> tool \<Rightarrow> completion \<times> tool"
where
  "generateAllImages env captured w = sweep_from env captured 0 w"

section \<open>Notions the properties are stated with\<close>

text \<open>The indices of the image requests of a trace, in the order they were issued.\<close>

fun requests :: "event list \<Rightarrow> nat list" where
  "requests [] = []"
| "requests (ImageRequest i p # es) = i # requests es"
| "requests (e # es) = requests es"



text \<open>
  The four statuses of a shot: generating, image present, error present, none of the
  three. Exactly one of them holds.
\<close>

definition exactly_one_status :: "val \<Rightarrow> bool" where
  "exactly_one_status e =
     (length (filter id
        [truthy (property ''isGenerating'' e),
         property ''imageUrl'' e \<noteq> Undefined,
         property ''error'' e \<noteq> Undefined,
         falsy (property ''isGenerating'' e) \<and> property ''imageUrl'' e = Undefined
           \<and> property ''error'' e = Undefined])
      = 1)"

text \<open>
  The steps of a run in which operations overlap. A call suspends where it awaits, and
  what runs meanwhile works on the state it left: \<open>begun\<close> is the state when a call of
  \<^verbatim>\<open>generateImageForShot\<close> awaits its request (the state itself, when its guard returned),
  \<open>analysing\<close> the state when a call of \<^verbatim>\<open>analyzeScript\<close> awaits its request; a request
  that settles resumes its call with \<open>render_settle\<close> or \<open>analyze_settle\<close> on the state of
  that moment, and a sweep that resumes after the render of index \<open>i\<close> goes on with
  \<open>sweep_from\<close> at \<open>Suc i\<close>.
\<close>

definition begun :: "val list \<Rightarrow> nat \<Rightarrow> tool \<Rightarrow> tool" where
  "begun captured i w = (case render_begin captured i w of None \<Rightarrow> w | Some w1 \<Rightarrow> w1)"

definition analysing :: "string \<Rightarrow> tool \<Rightarrow> tool" where
  "analysing script w = (case analyze_begin script w of None \<Rightarrow> w | Some w1 \<Rightarrow> w1)"

section \<open>Concrete inputs\<close>

definition example_shot :: "int \<Rightarrow> GeneratedShot" where
  "example_shot n =
     \<lparr>shotNumber = n, sceneDescription = ''A man drinks coffee.'', cameraAngle = ''Wide'',
      cameraMovement = ''Static'', lens = ''35mm'', lighting = ''Soft'',
      imagePrompt = ''A man drinks coffee'',
      imageUrl = None, isGenerating = None, error = None\<rparr>"

definition idle :: "int \<Rightarrow> val" where
  "idle n = shot_value (example_shot n)"

definition example_state :: "val list \<Rightarrow> tool" where
  "example_state xs =
     \<lparr>isAnalyzing = False, shots = Arr xs, banner = Null, trace = [], broken = False\<rparr>"

text \<open>The text of a JSON array of two shots, and \<^verbatim>\<open>JSON.parse\<close> on the texts of the examples.\<close>

definition two_shot_text :: string where
  "two_shot_text =
     ''[{\"shotNumber\":1,\"sceneDescription\":\"A man drinks coffee.\",\"cameraAngle\":\"Wide\",''
     @ ''\"cameraMovement\":\"Static\",\"lens\":\"35mm\",\"lighting\":\"Soft\",''
     @ ''\"imagePrompt\":\"A man drinks coffee\"},''
     @ ''{\"shotNumber\":2,\"sceneDescription\":\"A man drinks coffee.\",\"cameraAngle\":\"Wide\",''
     @ ''\"cameraMovement\":\"Static\",\"lens\":\"35mm\",\"lighting\":\"Soft\",''
     @ ''\"imagePrompt\":\"A man drinks coffee\"}]''"

definition example_parse :: "string \<Rightarrow> string + val" where
  "example_parse s =
     (if s = two_shot_text then Inr (Arr [idle 1, idle 2])
      else if s = ''[1, 2]'' then Inr (Arr [Num 1, Num 2])
      else if s = ''{}'' then Inr (Object [])
      else if s = ''42'' then Inr (Num 42)
      else Inl ''Unexpected end of JSON input'')"

definition image_response :: "Part list \<Rightarrow> GenerateContentResponse" where
  "image_response ps =
     \<lparr>candidates = Some [\<lparr>content = Some \<lparr>parts = Some ps\<rparr>\<rparr>]\<rparr>"

definition text_part :: Part where
  "text_part = \<lparr>part_text = Some ''Here is the frame.'', inlineData = None\<rparr>"

definition image_part :: "string \<Rightarrow> Part" where
  "image_part d = \<lparr>part_text = None, inlineData = Some \<lparr>data = d\<rparr>\<rparr>"

definition image_env :: render_env where
  "image_env =
     \<lparr>request = Resolved (image_response [text_part, image_part ''AAAA'']),
      aistudio = Some (Resolved ())\<rparr>"

definition no_image_env :: render_env where
  "no_image_env =
     \<lparr>request = Resolved (image_response [text_part]), aistudio = Some (Resolved ())\<rparr>"

definition two_candidates :: GenerateContentResponse where
  "two_candidates =
     \<lparr>candidates = Some
        [\<lparr>content = Some \<lparr>parts = Some [text_part]\<rparr>\<rparr>,
         \<lparr>content = Some \<lparr>parts = Some [image_part ''AAAA'']\<rparr>\<rparr>]\<rparr>"

definition second_candidate_env :: render_env where
  "second_candidate_env = \<lparr>request = Resolved two_candidates, aistudio = Some (Resolved ())\<rparr>"

definition not_found :: val where
  "not_found = error_object ''404: Requested entity was not found.''"

definition cancelled :: val where
  "cancelled = error_object ''The key selection was cancelled''"

definition key_rejects_env :: render_env where
  "key_rejects_env = \<lparr>request = Rejected not_found, aistudio = Some (Rejected cancelled)\<rparr>"

definition key_resolves_env :: render_env where
  "key_resolves_env = \<lparr>request = Rejected not_found, aistudio = Some (Resolved ())\<rparr>"

definition one_shot :: tool where
  "one_shot = example_state [idle 1]"

definition two_shots :: tool where
  "two_shots = example_state [idle 1, idle 2]"

definition abort_envs :: "nat \<Rightarrow> render_env" where
  "abort_envs i = (if i = 0 then key_rejects_env else image_env)"

text \<open>
  A run of the page. The script is analysed into two shots. \<^bold>\<open>Generate All Visuals\<close> is
  clicked: the sweep captures the list of that moment (\<open>swept\<close>) and its render of shot 0
  awaits the request (\<open>sweep_at_0\<close>). Meanwhile \<^bold>\<open>Generate Visual\<close> of shot 1 is clicked, on
  the page as it is then (\<open>clicked_1\<close>). The request of shot 0 resolves with an image and
  the sweep resumes (\<open>sweep_resumed\<close>): it reaches index 1 and calls the renderer
  (\<open>sweep_at_1\<close>). The request of the click resolves with an image (\<open>click_settled\<close>),
  then the request of the sweep for shot 1 resolves with no image (\<open>sweep_settled\<close>).
\<close>

definition analysed :: tool where
  "analysed =
     snd (analyzeScript example_parse (Resolved (Some two_shot_text)) ''INT. ROOM - DAY'' initial)"

definition swept :: "val list" where
  "swept = items (shots analysed)"

definition sweep_at_0 :: tool where
  "sweep_at_0 = begun swept 0 analysed"

definition clicked_1 :: tool where
  "clicked_1 = begun (items (shots sweep_at_0)) 1 sweep_at_0"

definition sweep_resumed :: tool where
  "sweep_resumed = snd (render_settle image_env 0 clicked_1)"

definition sweep_at_1 :: tool where
  "sweep_at_1 = begun swept 1 sweep_resumed"

definition click_settled :: tool where
  "click_settled = snd (render_settle image_env 1 sweep_at_1)"

definition sweep_settled :: tool where
  "sweep_settled = snd (render_settle no_image_env 1 click_settled)"

text \<open>
  Another run of the page. After the same start, while the sweep's render of shot 0 awaits
  its request, the script is changed and \<^bold>\<open>Analyze\<close> is clicked (\<open>reanalysing\<close>: the list
  is emptied and the analysis request awaited). The request of shot 0 resolves with an
  image and the sweep resumes (\<open>sweep_resumed_empty\<close>), to call the renderer at index 1.
\<close>

definition reanalysing :: tool where
  "reanalysing = analysing ''EXT. STREET - NIGHT'' sweep_at_0"

definition sweep_resumed_empty :: tool where
  "sweep_resumed_empty = snd (render_settle image_env 0 reanalysing)"

section \<open>Values: basic facts\<close>

lemma map_of_set_prop: "map_of (set_prop k v ps) = (map_of ps)(k \<mapsto> v)"
  by (induction ps) auto

lemma property_set_prop:
  "property k' (Object (set_prop k v ps)) = (if k' = k then v else property k' (Object ps))"
  by (simp add: map_of_set_prop)

lemma property_spread_object: "property k (Object (spread (Object ps))) = property k (Object ps)"
  by simp

lemma written_generating:
  "property ''isGenerating'' (written MarkGenerating e) = Bool True"
  "property ''error'' (written MarkGenerating e) = Undefined"
  "property ''imageUrl'' (written MarkGenerating e) = property ''imageUrl'' (Object (spread e))"
  by (simp_all add: map_of_set_prop)


lemma written_failed:
  "property ''isGenerating'' (written (SetFailed m) e) = Bool False"
  "property ''error'' (written (SetFailed m) e) = m"
  "property ''imageUrl'' (written (SetFailed m) e) = property ''imageUrl'' (Object (spread e))"
  by (simp_all add: map_of_set_prop)

lemma spread_written: "spread (written k e) = (case written k e of Object ps \<Rightarrow> ps | _ \<Rightarrow> [])"
  by (cases k) simp_all

lemma js_get_js_set_same [simp]: "js_get (js_set xs i v) i = v"
  by (simp add: js_get_def js_set_def nth_append)

lemma js_get_js_set_other [simp]: "k \<noteq> i \<Longrightarrow> js_get (js_set xs i v) k = js_get xs k"
  by (auto simp add: js_get_def js_set_def nth_append)

lemma length_js_set: "length (js_set xs i v) = max (length xs) (Suc i)"
  by (simp add: js_set_def)


lemma message_of_error_object [simp]: "message_of (error_object m) = Some (Str m)"
  by (simp add: message_of_def error_object_def)

lemma dropWhile_unpadded: "s \<noteq> [] \<Longrightarrow> \<not> P (hd s) \<Longrightarrow> dropWhile P s = s"
  by (cases s) simp_all

lemma trim_padded:
  assumes "s \<noteq> []" and "\<not> js_whitespace (hd s)" and "\<not> js_whitespace (last s)"
  shows "trim ('' '' @ s @ ''  '') = s"
proof -
  have w: "js_whitespace CHR '' ''"
    by (simp add: js_whitespace_def)
  have "dropWhile js_whitespace ('' '' @ s @ ''  '') = s @ ''  ''"
    using assms(1,2) w by (cases s) simp_all
  moreover have "dropWhile js_whitespace (rev (s @ ''  '')) = rev s"
    using assms(1,3) w by (simp add: dropWhile_unpadded hd_rev)
  ultimately show ?thesis by (simp add: trim_def)
qed

section \<open>analyzeScript\<close>

lemma analyzeScript_started:
  assumes "trim script \<noteq> []"
  shows "analyzeScript JSON_parse response script w
    = analyze_settle JSON_parse response
        (w\<lparr>isAnalyzing := True, banner := Null, shots := Arr [],
           trace := trace w @ [AnalysisRequest script]\<rparr>)"
  using assms by (simp add: analyzeScript_def analyze_begin_def)

lemma analyzeScript_blank:
  "trim script = [] \<Longrightarrow> analyzeScript JSON_parse response script w = (Done, w)"
  by (simp add: analyzeScript_def analyze_begin_def)

lemma analyze_settle_parsed:
  assumes "trim payload \<noteq> []" and "JSON_parse (trim payload) = Inr v"
  shows "analyze_settle JSON_parse (Resolved (Some payload)) w
    = (Done, w\<lparr>shots := v, isAnalyzing := False\<rparr>)"
  using assms by (simp add: analyze_settle_def analyze_try_def)

text \<open>
  Whatever value \<^verbatim>\<open>JSON.parse\<close> returns becomes the state's list, with no banner: an
  array of shots, and as well an array of other things, an object, a number, a string.
\<close>

lemma analyze_stores_parsed_value:
  assumes "trim script \<noteq> []" and "trim payload \<noteq> []" and "JSON_parse (trim payload) = Inr v"
  shows "analyzeScript JSON_parse (Resolved (Some payload)) script w
    = (Done, w\<lparr>isAnalyzing := False, banner := Null, shots := v,
               trace := trace w @ [AnalysisRequest script]\<rparr>)"
  using assms by (simp add: analyzeScript_started analyze_settle_parsed)



text \<open>
  C1. For a script that is not blank, when the analysis request resolves with a text that
  is not blank and \<^verbatim>\<open>JSON.parse\<close> of the trimmed text gives an array, \<open>analyzeScript\<close>
  completes and the list of the state is then that array: as long, in the same order,
  every entry the parsed value itself, whatever list the state held before.
\<close>

theorem analyze_replaces_list:
  assumes "trim script \<noteq> []"
    and "response = Resolved (Some payload)"
    and "trim payload \<noteq> []"
    and "JSON_parse (trim payload) = Inr (Arr parsedShots)"
  shows "fst (analyzeScript JSON_parse response script w) = Done
    \<and> shots (snd (analyzeScript JSON_parse response script w)) = Arr parsedShots
    \<and> length (items (shots (snd (analyzeScript JSON_parse response script w))))
        = length parsedShots
    \<and> (\<forall>k < length parsedShots.
          shot_at (snd (analyzeScript JSON_parse response script w)) k = parsedShots ! k)"
proof -
  have "analyzeScript JSON_parse response script w
      = (Done, w\<lparr>isAnalyzing := False, banner := Null, shots := Arr parsedShots,
                 trace := trace w @ [AnalysisRequest script]\<rparr>)"
    using assms by (simp add: analyze_stores_parsed_value)
  then show ?thesis by (simp add: items_def shot_at_def js_get_def)
qed

theorem analyze_replaces_list_witness:
  "trim ''INT. ROOM - DAY'' \<noteq> []
   \<and> trim ('' '' @ two_shot_text @ ''  '') \<noteq> []
   \<and> example_parse (trim ('' '' @ two_shot_text @ ''  '')) = Inr (Arr [idle 1, idle 2])
   \<and> fst (analyzeScript example_parse (Resolved (Some ('' '' @ two_shot_text @ ''  '')))
        ''INT. ROOM - DAY'' (example_state [idle 7])) = Done
   \<and> shots (snd (analyzeScript example_parse (Resolved (Some ('' '' @ two_shot_text @ ''  '')))
        ''INT. ROOM - DAY'' (example_state [idle 7])))
     = Arr [idle 1, idle 2]"
proof -
  have "two_shot_text \<noteq> []" and "\<not> js_whitespace (hd two_shot_text)"
    and "\<not> js_whitespace (last two_shot_text)"
    by (simp_all add: two_shot_text_def js_whitespace_def)
  then have t: "trim ('' '' @ two_shot_text @ ''  '') = two_shot_text"
    by (rule trim_padded)
  have a: "trim ''INT. ROOM - DAY'' \<noteq> []"
    by (simp add: trim_def js_whitespace_def)
  have b: "trim ('' '' @ two_shot_text @ ''  '') \<noteq> []"
    unfolding t by (simp add: two_shot_text_def)
  have c: "example_parse (trim ('' '' @ two_shot_text @ ''  '')) = Inr (Arr [idle 1, idle 2])"
    unfolding t by (simp add: example_parse_def)
  from analyze_replaces_list [where JSON_parse = example_parse
      and w = "example_state [idle 7]", OF a refl b c]
  show ?thesis using a b c by simp
qed




section \<open>generateImageForShot\<close>

lemma object_spread_written: "Object (spread (written k e)) = written k e"
  by (cases k) simp_all

lemma update_shot_array:
  assumes "iterate (shots w) \<noteq> None"
  shows "update_shot i k w
    = w\<lparr>shots := Arr (js_set (items (shots w)) i (written k (shot_at w i))),
        trace := trace w @ [SetShots i k]\<rparr>"
  using assms by (auto simp add: update_shot_def items_def shot_at_def)

lemma iterate_update_shot:
  "iterate (shots w) \<noteq> None \<Longrightarrow> iterate (shots (update_shot i k w)) \<noteq> None"
  by (simp add: update_shot_array)

lemma shot_at_update_same:
  "iterate (shots w) \<noteq> None \<Longrightarrow> shot_at (update_shot i k w) i = written k (shot_at w i)"
  by (simp add: update_shot_array) (simp add: shot_at_def items_def)

lemma shot_at_update_other:
  "j \<noteq> i \<Longrightarrow> shot_at (update_shot i k w) j = shot_at w j"
  by (cases "iterate (shots w)") (simp_all add: update_shot_def shot_at_def items_def)

lemma trace_update_shot: "trace (update_shot i k w) = trace w @ [SetShots i k]"
  by (cases "iterate (shots w)") (simp_all add: update_shot_def)

lemma shot_at_trace_update [simp]: "shot_at (w\<lparr>trace := t\<rparr>) j = shot_at w j"
  by (simp add: shot_at_def)

lemma shot_at_render_resume [simp]: "shot_at (render_resume i w) j = shot_at w j"
  by (simp add: render_resume_def)

lemma shot_at_reselect [simp]: "shot_at (reselect w) j = shot_at w j"
  by (simp add: reselect_def)

lemma shots_render_resume [simp]: "shots (render_resume i w) = shots w"
  by (simp add: render_resume_def)

lemma shots_reselect [simp]: "shots (reselect w) = shots w"
  by (simp add: reselect_def)

text \<open>
  The guard is decided by the captured list alone: the state, where another call may have
  set the flag or emptied the list since, is not read.
\<close>

lemma render_guard:
  "(render_begin captured i w = None)
    = (falsy (js_get captured i) \<or> truthy (property ''isGenerating'' (js_get captured i)))"
  by (simp add: render_begin_def Let_def)

lemma render_begin_none:
  assumes "falsy (js_get captured i) \<or> truthy (property ''isGenerating'' (js_get captured i))"
  shows "generateImageForShot env captured i w = (Done, w)"
  using assms by (simp add: generateImageForShot_def render_begin_def Let_def)

lemma render_begin_some:
  assumes "truthy (js_get captured i)"
    and "falsy (property ''isGenerating'' (js_get captured i))"
  shows "render_begin captured i w
    = Some ((update_shot i MarkGenerating w)
        \<lparr>trace := trace w @ [SetShots i MarkGenerating,
                   ImageRequest i (property ''imagePrompt'' (js_get captured i))]\<rparr>)"
  using assms by (simp add: render_begin_def Let_def trace_update_shot)


lemma first_inline_none:
  "find (\<lambda>p. inlineData p \<noteq> None) ps = None \<Longrightarrow> first_inline ps = []"
proof (induction ps)
  case Nil
  then show ?case by simp
next
  case (Cons a ps)
  then show ?case by (cases "inlineData a") simp_all
qed

text \<open>
  The frame of a render: whatever the captured list, the state and the way the requests
  settle, no element at another index changes.
\<close>

lemma render_catch_frame:
  "j \<noteq> i \<Longrightarrow> shot_at (snd (render_catch env i err w)) j = shot_at w j"
  by (simp add: render_catch_def set_failed_def shot_at_update_other
      split: option.splits settled.splits)

lemma render_settle_frame:
  "j \<noteq> i \<Longrightarrow> shot_at (snd (render_settle env i w)) j = shot_at w j"
  by (simp add: render_settle_def render_catch_frame shot_at_update_other split: sum.splits)

lemma render_frame:
  "j \<noteq> i \<Longrightarrow> shot_at (snd (generateImageForShot env captured i w)) j = shot_at w j"
  by (simp add: generateImageForShot_def render_begin_def Let_def render_settle_frame
      shot_at_update_other split: option.splits)



lemmas run_defs =
  generateImageForShot_def render_begin_def render_settle_def render_try_def render_catch_def
  render_resume_def update_shot_def set_failed_def reselect_def auth_hint_def message_of_def
  or_else_def error_object_def response_parts_def shot_at_def items_def js_get_def js_set_def
  phrase_def Let_def

lemmas example_defs =
  example_state_def example_shot_def idle_def shot_value_def optional_def image_env_def
  no_image_env_def image_response_def image_part_def text_part_def one_shot_def two_shots_def
  two_candidates_def second_candidate_env_def not_found_def cancelled_def key_rejects_env_def
  key_resolves_env_def abort_envs_def


text \<open>
  C3 at the failing input: the image request of an idle shot rejects with a message that
  holds the phrase of a missing entity, \<^verbatim>\<open>window.aistudio\<close> is present and its
  \<^verbatim>\<open>openSelectKey()\<close> rejects. The renderer rejects in turn, and the shot is left with
  \<open>isGenerating\<close> true and no \<open>error\<close>.
\<close>

theorem render_failure_left_generating:
  "request key_rejects_env = Rejected not_found
   \<and> fst (generateImageForShot key_rejects_env (items (shots one_shot)) 0 one_shot)
       = Threw cancelled
   \<and> property ''isGenerating''
        (shot_at (snd (generateImageForShot key_rejects_env (items (shots one_shot)) 0
           one_shot)) 0)
       = Bool True
   \<and> property ''error''
        (shot_at (snd (generateImageForShot key_rejects_env (items (shots one_shot)) 0
           one_shot)) 0)
       = Undefined"
  by (simp add: run_defs example_defs)

section \<open>A render that fails\<close>

lemma render_failed_run:
  assumes "truthy (js_get captured i)"
    and "falsy (property ''isGenerating'' (js_get captured i))"
    and "render_try env = Inl err"
  shows "generateImageForShot env captured i w
    = render_catch env i err
        ((update_shot i MarkGenerating w)
           \<lparr>trace := trace w @ [SetShots i MarkGenerating,
                      ImageRequest i (property ''imagePrompt'' (js_get captured i)),
                      ImageSettled i]\<rparr>)"
  using assms
  by (simp add: generateImageForShot_def render_begin_some render_settle_def render_resume_def)

text \<open>
  Every failure in which the \<^verbatim>\<open>catch\<close> block reaches line 260 ends as C3 says: the
  request rejects with a value that has a \<^verbatim>\<open>message\<close> to read, or the response holds no
  image, and either the message lacks the phrase, or \<^verbatim>\<open>window.aistudio\<close> is absent, or
  \<^verbatim>\<open>openSelectKey()\<close> resolves.
\<close>

lemma render_failure_marks_error:
  assumes "truthy (js_get captured i)"
    and "falsy (property ''isGenerating'' (js_get captured i))"
    and "iterate (shots w) \<noteq> None"
    and "render_try env = Inl err"
    and "message_of err = Some m"
    and "auth_hint m = Some hint"
    and "\<not> hint \<or> aistudio env = None \<or> aistudio env = Some (Resolved ())"
  shows "fst (generateImageForShot env captured i w) = Done
    \<and> property ''isGenerating'' (shot_at (snd (generateImageForShot env captured i w)) i)
        = Bool False
    \<and> property ''error'' (shot_at (snd (generateImageForShot env captured i w)) i)
        = or_else m ''Failed to generate image.''
    \<and> truthy (or_else m ''Failed to generate image.'')
    \<and> property ''imageUrl'' (shot_at (snd (generateImageForShot env captured i w)) i)
        = property ''imageUrl'' (Object (spread (shot_at w i)))"
proof -
  let ?w2 = "(update_shot i MarkGenerating w)
        \<lparr>trace := trace w @ [SetShots i MarkGenerating,
                   ImageRequest i (property ''imagePrompt'' (js_get captured i)),
                   ImageSettled i]\<rparr>"
  let ?g = "written MarkGenerating (shot_at w i)"
  let ?f = "SetFailed (or_else m ''Failed to generate image.'')"
  have it: "iterate (shots ?w2) \<noteq> None" "iterate (shots (reselect ?w2)) \<noteq> None"
    using assms(3) by (simp_all add: iterate_update_shot)
  have s: "shot_at ?w2 i = ?g" "shot_at (reselect ?w2) i = ?g"
    using assms(3) by (simp_all add: shot_at_update_same)
  have c: "generateImageForShot env captured i w = (Done, update_shot i ?f ?w2)
      \<or> generateImageForShot env captured i w = (Done, update_shot i ?f (reselect ?w2))"
    using assms(5,6,7)
    by (auto simp add: render_failed_run [OF assms(1,2,4)] render_catch_def set_failed_def)
  have r: "shot_at (snd (generateImageForShot env captured i w)) i = written ?f ?g"
    using c shot_at_update_same [OF it(1), of i ?f] shot_at_update_same [OF it(2), of i ?f]
    by (auto simp only: snd_conv s)
  have u: "property ''imageUrl'' (written ?f ?g)
      = property ''imageUrl'' (Object (spread (shot_at w i)))"
    by (simp only: written_failed object_spread_written written_generating)
  have d: "fst (generateImageForShot env captured i w) = Done"
    using c by auto
  show ?thesis
    by (simp only: r u d written_failed(1,2) simp_thms) (simp add: or_else_def)
qed

text \<open>
  The order of the effects when the message holds the phrase and \<^verbatim>\<open>openSelectKey()\<close>
  resolves: one call of \<^verbatim>\<open>openSelectKey\<close>, after the request has settled and before the
  write of the error; no second request.
\<close>

lemma render_failure_reselects_then_sets_error:
  assumes "truthy (js_get captured i)"
    and "falsy (property ''isGenerating'' (js_get captured i))"
    and "render_try env = Inl err"
    and "message_of err = Some (Str s)"
    and "js_includes s phrase"
    and "aistudio env = Some (Resolved ())"
  shows "fst (generateImageForShot env captured i w) = Done"
    and "trace (snd (generateImageForShot env captured i w))
      = trace w @ [SetShots i MarkGenerating,
                   ImageRequest i (property ''imagePrompt'' (js_get captured i)),
                   ImageSettled i, OpenSelectKey, SetShots i (SetFailed (Str s))]"
proof -
  have "s \<noteq> []"
    using assms(5) by (auto simp add: phrase_def)
  then have "auth_hint (Str s) = Some True" "or_else (Str s) ''Failed to generate image.'' = Str s"
    using assms(5) by (simp_all add: auth_hint_def or_else_def)
  then have "generateImageForShot env captured i w
      = (Done, update_shot i (SetFailed (Str s))
          (reselect ((update_shot i MarkGenerating w)
           \<lparr>trace := trace w @ [SetShots i MarkGenerating,
                      ImageRequest i (property ''imagePrompt'' (js_get captured i)),
                      ImageSettled i]\<rparr>)))"
    using assms(4,6)
    by (simp add: render_failed_run [OF assms(1,2,3)] render_catch_def set_failed_def)
  then show "fst (generateImageForShot env captured i w) = Done"
    and "trace (snd (generateImageForShot env captured i w))
      = trace w @ [SetShots i MarkGenerating,
                   ImageRequest i (property ''imagePrompt'' (js_get captured i)),
                   ImageSettled i, OpenSelectKey, SetShots i (SetFailed (Str s))]"
    by (simp_all add: trace_update_shot reselect_def)
qed

lemma reselection_resolved_example:
  "generateImageForShot key_resolves_env (items (shots one_shot)) 0 one_shot
    = (Done,
       \<lparr>isAnalyzing = False,
          shots = Arr [written (SetFailed (Str ''404: Requested entity was not found.''))
                        (written MarkGenerating (idle 1))],
          banner = Null,
          trace = [SetShots 0 MarkGenerating, ImageRequest 0 (Str ''A man drinks coffee''),
                   ImageSettled 0, OpenSelectKey,
                   SetShots 0 (SetFailed (Str ''404: Requested entity was not found.''))],
          broken = False\<rparr>)"
  by (simp add: run_defs example_defs)

text \<open>Without the phrase, \<^verbatim>\<open>openSelectKey\<close> is not called; no second request either.\<close>

lemma render_failure_without_phrase:
  assumes "truthy (js_get captured i)"
    and "falsy (property ''isGenerating'' (js_get captured i))"
    and "render_try env = Inl err"
    and "message_of err = Some m"
    and "auth_hint m = Some False"
  shows "fst (generateImageForShot env captured i w) = Done"
    and "trace (snd (generateImageForShot env captured i w))
      = trace w @ [SetShots i MarkGenerating,
                   ImageRequest i (property ''imagePrompt'' (js_get captured i)),
                   ImageSettled i,
                   SetShots i (SetFailed (or_else m ''Failed to generate image.''))]"
  using assms(4,5)
  by (simp_all add: render_failed_run [OF assms(1,2,3)] render_catch_def set_failed_def
      trace_update_shot)

text \<open>
  A rejection with \<^verbatim>\<open>null\<close> or \<^verbatim>\<open>undefined\<close>, or with a message that is truthy and
  neither a string nor an array, throws inside the \<^verbatim>\<open>catch\<close> block (lines 252 and 253):
  the renderer rejects with a TypeError and nothing is written.
\<close>

lemma render_catch_throws:
  assumes "nullish err \<or> (truthy (property ''message'' err)
      \<and> includes_phrase (property ''message'' err) = None)"
  shows "render_catch env i err w = (Threw type_error, w)"
  using assms by (auto simp add: render_catch_def message_of_def auth_hint_def)

text \<open>
  C8 at the failing input: the image request of shot 1 rejects with a message that holds
  the phrase, \<^verbatim>\<open>window.aistudio\<close> is present and its \<^verbatim>\<open>openSelectKey()\<close> rejects.
  \<^verbatim>\<open>openSelectKey\<close> is called once, the renderer rejects, and the error of the shot is
  never set: the trace ends with the call, with no write after it.
\<close>

theorem reselection_rejected_error_never_set:
  "request key_rejects_env = Rejected not_found
   \<and> message_of not_found = Some (Str ''404: Requested entity was not found.'')
   \<and> js_includes ''404: Requested entity was not found.'' phrase
   \<and> aistudio key_rejects_env = Some (Rejected cancelled)
   \<and> fst (generateImageForShot key_rejects_env (items (shots two_shots)) 1 two_shots)
       = Threw cancelled
   \<and> trace (snd (generateImageForShot key_rejects_env (items (shots two_shots)) 1 two_shots))
       = [SetShots 1 MarkGenerating, ImageRequest 1 (Str ''A man drinks coffee''),
          ImageSettled 1, OpenSelectKey]
   \<and> property ''error''
        (shot_at (snd (generateImageForShot key_rejects_env (items (shots two_shots)) 1
           two_shots)) 1)
       = Undefined"
  by (simp add: run_defs example_defs)

section \<open>generateAllImages\<close>

text \<open>
  C9 at the failing input: a sweep over two idle shots, where the request of shot 0
  rejects with a message that holds the phrase and \<^verbatim>\<open>openSelectKey()\<close> rejects. The
  sweep rejects at index 0: shot 1 was pending, gets no request and stays as it was.
\<close>

theorem sweep_aborted_by_failure:
  "pending (shot_at two_shots 0) \<and> pending (shot_at two_shots 1)
   \<and> request (abort_envs 0) = Rejected not_found
   \<and> fst (generateAllImages abort_envs (items (shots two_shots)) two_shots) = Threw cancelled
   \<and> requests (trace (snd (generateAllImages abort_envs (items (shots two_shots)) two_shots)))
       = [0]
   \<and> shot_at (snd (generateAllImages abort_envs (items (shots two_shots)) two_shots)) 1
       = idle 2"
  by (simp add: generateAllImages_def sweep_from.simps pending_def run_defs example_defs)

text \<open>
  The sweep, cut where it awaits: when the render of index \<open>i\<close> has begun (\<open>w1\<close>) and its
  request settles on a state \<open>w2\<close> into a render that completes (\<open>w3\<close>), the sweep goes on
  at \<open>Suc i\<close> from \<open>w3\<close>. With nothing in between, \<open>w2\<close> is \<open>w1\<close> and this is
  \<open>sweep_from\<close> itself.
\<close>

lemma sweep_cut:
  assumes "i < length captured"
    and "\<not> nullish (captured ! i)"
    and "pending (captured ! i)"
    and "render_begin captured i w = Some w1"
    and "render_settle (env i) i w1 = (Done, w3)"
  shows "sweep_from env captured i w = sweep_from env captured (Suc i) w3"
  using assms by (subst sweep_from.simps) (simp add: generateImageForShot_def)

lemma sweep_skip:
  assumes "i < length captured"
    and "\<not> nullish (captured ! i)"
    and "\<not> pending (captured ! i)"
  shows "sweep_from env captured i w = sweep_from env captured (Suc i) w"
  using assms by (subst sweep_from.simps) simp

lemma sweep_end:
  "length captured \<le> i \<Longrightarrow> sweep_from env captured i w = (Done, w)"
  by (subst sweep_from.simps) simp

lemma sweep_last:
  assumes "Suc i = length captured"
    and "\<not> nullish (captured ! i)"
    and "pending (captured ! i)"
    and "fst (generateImageForShot (env i) captured i w) = Done"
  shows "sweep_from env captured i w = generateImageForShot (env i) captured i w"
proof -
  obtain w' where g: "generateImageForShot (env i) captured i w = (Done, w')"
    using assms(4) by (cases "generateImageForShot (env i) captured i w") auto
  have "sweep_from env captured i w = sweep_from env captured (Suc i) w'"
    using assms(1,2,3) g by (subst sweep_from.simps) simp
  also have "\<dots> = (Done, w')"
    using assms(1) by (simp add: sweep_end)
  finally show ?thesis by (simp add: g)
qed

text \<open>
  What the guard gives for the handler of the latest render, whose captured list is the
  state's list: a shot that is generating, or an index past the end, returns at once.
\<close>

lemma render_noop_latest_handler:
  assumes "truthy (property ''isGenerating'' (shot_at w i)) \<or> length (items (shots w)) \<le> i"
  shows "generateImageForShot env (items (shots w)) i w = (Done, w)"
  using assms by (auto simp add: render_begin_none shot_at_def js_get_def)

section \<open>Runs in which operations overlap\<close>

lemma trim_unpadded:
  assumes "s \<noteq> []" and "\<not> js_whitespace (hd s)" and "\<not> js_whitespace (last s)"
  shows "trim s = s"
  using assms by (simp add: trim_def dropWhile_unpadded hd_rev)

lemma analysed_state:
  "analysed = \<lparr>isAnalyzing = False, shots = Arr [idle 1, idle 2], banner = Null,
               trace = [AnalysisRequest ''INT. ROOM - DAY''], broken = False\<rparr>"
proof -
  have "two_shot_text \<noteq> []" and "\<not> js_whitespace (hd two_shot_text)"
    and "\<not> js_whitespace (last two_shot_text)"
    by (simp_all add: two_shot_text_def js_whitespace_def)
  then have t: "trim two_shot_text = two_shot_text"
    by (rule trim_unpadded)
  have a: "trim ''INT. ROOM - DAY'' \<noteq> []"
    by (simp add: trim_def js_whitespace_def)
  have b: "trim two_shot_text \<noteq> []"
    unfolding t by (simp add: two_shot_text_def)
  have c: "example_parse (trim two_shot_text) = Inr (Arr [idle 1, idle 2])"
    unfolding t by (simp add: example_parse_def)
  show ?thesis
    unfolding analysed_def
      analyze_stores_parsed_value [where JSON_parse = example_parse, OF a b c]
    by (simp add: initial_def)
qed

lemma swept_list: "swept = [idle 1, idle 2]"
  by (simp add: swept_def analysed_state items_def)

lemmas step_defs = begun_def analysing_def analyze_begin_def

lemma sweep_at_0_state:
  "sweep_at_0
    = \<lparr>isAnalyzing = False,
         shots = Arr [written MarkGenerating (idle 1), idle 2],
         banner = Null,
         trace = [AnalysisRequest ''INT. ROOM - DAY'', SetShots 0 MarkGenerating,
                  ImageRequest 0 (Str ''A man drinks coffee'')],
         broken = False\<rparr>"
  by (simp add: sweep_at_0_def analysed_state swept_list step_defs run_defs example_defs)

lemma clicked_1_state:
  "clicked_1
    = \<lparr>isAnalyzing = False,
         shots = Arr [written MarkGenerating (idle 1), written MarkGenerating (idle 2)],
         banner = Null,
         trace = [AnalysisRequest ''INT. ROOM - DAY'', SetShots 0 MarkGenerating,
                  ImageRequest 0 (Str ''A man drinks coffee''), SetShots 1 MarkGenerating,
                  ImageRequest 1 (Str ''A man drinks coffee'')],
         broken = False\<rparr>"
  by (simp add: clicked_1_def sweep_at_0_state step_defs run_defs example_defs)

lemma sweep_resumed_state:
  "sweep_resumed
    = \<lparr>isAnalyzing = False,
         shots = Arr [written (SetImage ''data:image/png;base64,AAAA'')
                       (written MarkGenerating (idle 1)),
                     written MarkGenerating (idle 2)],
         banner = Null,
         trace = [AnalysisRequest ''INT. ROOM - DAY'', SetShots 0 MarkGenerating,
                  ImageRequest 0 (Str ''A man drinks coffee''), SetShots 1 MarkGenerating,
                  ImageRequest 1 (Str ''A man drinks coffee''), ImageSettled 0,
                  SetShots 0 (SetImage ''data:image/png;base64,AAAA'')],
         broken = False\<rparr>"
  by (simp add: sweep_resumed_def clicked_1_state run_defs example_defs)

lemma sweep_settled_state:
  "sweep_settled
    = \<lparr>isAnalyzing = False,
         shots = Arr [written (SetImage ''data:image/png;base64,AAAA'')
                       (written MarkGenerating (idle 1)),
                     written (SetFailed (Str ''No image generated.''))
                       (written (SetImage ''data:image/png;base64,AAAA'')
                         (written MarkGenerating (written MarkGenerating (idle 2))))],
         banner = Null,
         trace = [AnalysisRequest ''INT. ROOM - DAY'', SetShots 0 MarkGenerating,
                  ImageRequest 0 (Str ''A man drinks coffee''), SetShots 1 MarkGenerating,
                  ImageRequest 1 (Str ''A man drinks coffee''), ImageSettled 0,
                  SetShots 0 (SetImage ''data:image/png;base64,AAAA''),
                  SetShots 1 MarkGenerating, ImageRequest 1 (Str ''A man drinks coffee''),
                  ImageSettled 1, SetShots 1 (SetImage ''data:image/png;base64,AAAA''),
                  ImageSettled 1, SetShots 1 (SetFailed (Str ''No image generated.''))],
         broken = False\<rparr>"
  by (simp add: sweep_settled_def click_settled_def sweep_at_1_def sweep_resumed_state
      swept_list step_defs run_defs example_defs)

lemma sweep_resumed_empty_state:
  "reanalysing
    = \<lparr>isAnalyzing = True, shots = Arr [], banner = Null,
         trace = [AnalysisRequest ''INT. ROOM - DAY'', SetShots 0 MarkGenerating,
                  ImageRequest 0 (Str ''A man drinks coffee''),
                  AnalysisRequest ''EXT. STREET - NIGHT''],
         broken = False\<rparr>"
  "sweep_resumed_empty
    = \<lparr>isAnalyzing = True,
         shots = Arr [written (SetImage ''data:image/png;base64,AAAA'') Undefined],
         banner = Null,
         trace = [AnalysisRequest ''INT. ROOM - DAY'', SetShots 0 MarkGenerating,
                  ImageRequest 0 (Str ''A man drinks coffee''),
                  AnalysisRequest ''EXT. STREET - NIGHT'', ImageSettled 0,
                  SetShots 0 (SetImage ''data:image/png;base64,AAAA'')],
         broken = False\<rparr>"
  by (simp_all add: sweep_resumed_empty_def reanalysing_def sweep_at_0_state trim_def
      js_whitespace_def step_defs run_defs example_defs)

text \<open>
  C7 at the failing input. The sweep's render of shot 0 awaits its request when
  \<^bold>\<open>Generate Visual\<close> of shot 1 is clicked; the request of shot 0 resolves and the sweep
  calls the renderer on index 1. The shot at index 1 of the state has \<open>isGenerating\<close>
  true and its request is in flight, but the guard reads the list the sweep captured,
  where the flag is absent: the call issues a second request for shot 1 and writes over
  the shot.
\<close>

theorem render_second_request_while_generating:
  "property ''isGenerating'' (shot_at sweep_resumed 1) = Bool True
   \<and> requests (trace sweep_resumed) = [0, 1]
   \<and> property ''isGenerating'' (js_get swept 1) = Undefined
   \<and> fst (generateImageForShot no_image_env swept 1 sweep_resumed) = Done
   \<and> requests (trace (snd (generateImageForShot no_image_env swept 1 sweep_resumed)))
       = [0, 1, 1]
   \<and> property ''isGenerating''
        (shot_at (snd (generateImageForShot no_image_env swept 1 sweep_resumed)) 1)
       = Bool False
   \<and> property ''error''
        (shot_at (snd (generateImageForShot no_image_env swept 1 sweep_resumed)) 1)
       = Str ''No image generated.''"
  by (simp add: sweep_resumed_state swept_list run_defs example_defs)

text \<open>
  C5 at the failing input. In the same run, at the moment the sweep reaches index 1 the
  shot there has \<open>isGenerating\<close> true in the state, set by the click. The loop tests the
  element of the list it captured, which is pending, and does not skip the shot: the
  rest of the sweep issues a request for index 1, the second for that shot.
\<close>

theorem sweep_requests_generating_shot:
  "swept = items (shots analysed)
   \<and> sweep_resumed = snd (render_settle image_env 0 (begun (items (shots sweep_at_0)) 1
        (begun swept 0 analysed)))
   \<and> property ''isGenerating'' (shot_at sweep_resumed 1) = Bool True
   \<and> pending (swept ! 1)
   \<and> requests (trace sweep_resumed) = [0, 1]
   \<and> fst (sweep_from (\<lambda>i. image_env) swept 1 sweep_resumed) = Done
   \<and> requests (trace (snd (sweep_from (\<lambda>i. image_env) swept 1 sweep_resumed))) = [0, 1, 1]"
proof -
  have a: "swept = items (shots analysed)"
    by (simp add: swept_def)
  have b: "sweep_resumed = snd (render_settle image_env 0 (begun (items (shots sweep_at_0)) 1
        (begun swept 0 analysed)))"
    by (simp add: sweep_resumed_def clicked_1_def sweep_at_0_def)
  have c: "property ''isGenerating'' (shot_at sweep_resumed 1) = Bool True"
    "requests (trace sweep_resumed) = [0, 1]"
    by (simp_all add: sweep_resumed_state run_defs example_defs)
  have d: "pending (swept ! 1)"
    by (simp add: swept_list pending_def example_defs)
  have f: "fst (generateImageForShot image_env swept 1 sweep_resumed) = Done"
    "requests (trace (snd (generateImageForShot image_env swept 1 sweep_resumed))) = [0, 1, 1]"
    by (simp_all add: sweep_resumed_state swept_list run_defs example_defs)
  have n: "Suc 1 = length swept" "\<not> nullish (swept ! 1)"
    by (simp_all add: swept_list example_defs)
  have e: "sweep_from (\<lambda>i. image_env) swept 1 sweep_resumed
      = generateImageForShot image_env swept 1 sweep_resumed"
    using n d f(1) by (rule sweep_last)
  show ?thesis
    using a b c d f by (simp only: e simp_thms)
qed

text \<open>
  C6 at the failing input. In the same run both requests for shot 1 are in flight; the
  request of the click resolves with an image, then the request of the sweep resolves
  with none: shot 1 ends with \<open>imageUrl\<close> and \<open>error\<close> both present. When the request of
  the click resolves before the request of shot 0 does, the sweep's render of shot 1
  begins on a shot that has its image, which is then generating with that image. Each
  of the renders was offered by the page or called by the sweep on a shot with no image,
  and every shot had one status after the analysis.
\<close>

theorem two_statuses_after_overlapping_renders:
  "exactly_one_status (shot_at analysed 0) \<and> exactly_one_status (shot_at analysed 1)
   \<and> requests (trace sweep_settled) = [0, 1, 1]
   \<and> property ''imageUrl'' (shot_at sweep_settled 1) = Str ''data:image/png;base64,AAAA''
   \<and> property ''error'' (shot_at sweep_settled 1) = Str ''No image generated.''
   \<and> \<not> exactly_one_status (shot_at sweep_settled 1)
   \<and> property ''isGenerating''
        (shot_at (begun swept 1 (snd (render_settle image_env 0
           (snd (render_settle image_env 1 clicked_1))))) 1)
       = Bool True
   \<and> property ''imageUrl''
        (shot_at (begun swept 1 (snd (render_settle image_env 0
           (snd (render_settle image_env 1 clicked_1))))) 1)
       = Str ''data:image/png;base64,AAAA''
   \<and> \<not> exactly_one_status
        (shot_at (begun swept 1 (snd (render_settle image_env 0
           (snd (render_settle image_env 1 clicked_1))))) 1)"
  by (simp add: exactly_one_status_def analysed_state sweep_settled_state clicked_1_state
      swept_list step_defs run_defs example_defs)

text \<open>
  C10 at the failing input. The sweep's render of shot 0 awaits its request when
  \<^bold>\<open>Analyze\<close> is clicked, which empties the list; the request of shot 0 resolves, its
  write leaves a list of one element, and the sweep calls the renderer on index 1. The
  index is past the end of the state's list, but the guard reads the list the sweep
  captured, which has a shot there: the call issues a request and extends the list.
\<close>

theorem render_past_the_end_extends_list:
  "shots reanalysing = Arr []
   \<and> length (items (shots sweep_resumed_empty)) = 1
   \<and> shot_at sweep_resumed_empty 1 = Undefined
   \<and> js_get swept 1 = idle 2
   \<and> fst (generateImageForShot image_env swept 1 sweep_resumed_empty) = Done
   \<and> requests (trace (snd (generateImageForShot image_env swept 1 sweep_resumed_empty)))
       = [0, 1]
   \<and> length (items (shots (snd (generateImageForShot image_env swept 1 sweep_resumed_empty))))
       = 2
   \<and> shot_at (snd (generateImageForShot image_env swept 1 sweep_resumed_empty)) 1
       = Object [(''isGenerating'', Bool False), (''error'', Undefined),
                 (''imageUrl'', Str ''data:image/png;base64,AAAA'')]"
  by (simp add: sweep_resumed_empty_state swept_list run_defs example_defs)

end
